theory Spec2Isabelle
  imports Complex_Main "HOL-Library.AList"
begin

section \<open>Python values, exceptions and the world the SDK runs in\<close>

text \<open>
  The repository is Python. The values that reach the SDK are \<open>None\<close>, booleans,
  integers, floats, \<open>str\<close> and \<open>bytes\<close>. A float stands for the real number it
  denotes (the code only stores and compares them). Strings are ASCII.
\<close>

datatype pyval =
    PyNone
  | PyBool bool
  | PyInt int
  | PyFloat real
  | PyStr string
  | PyBytes string

text \<open>
  The exceptions that occur. \<open>SystemExit\<close> is what \<open>sys.exit(n)\<close> raises; it derives
  from \<open>BaseException\<close>, so \<open>except Exception\<close> does not catch it.
  \<open>RemoteServiceError\<close> is the name the specification gives to a failed remote call.
\<close>

datatype py_error =
    TypeError
  | ValueError
  | AttributeError
  | FileNotFoundError
  | FileExistsError
  | RemoteServiceError
  | SystemExit int

fun is_Exception :: "py_error \<Rightarrow> bool" where
  "is_Exception (SystemExit _) = False"
| "is_Exception _ = True"

datatype node = File string | Dir

datatype operation = Remove_background_op | Upscale_op | Blur_op

record request =
  req_api_key :: pyval
  req_operation :: operation
  req_image :: pyval
  req_options :: "(string \<times> pyval) list"

text \<open>One constructor for each \<open>print\<close> statement of the modelled functions.\<close>

datatype line =
    Api_key_not_found
  | Input_directory_missing string
  | Processing_batch
  | Skipping string
  | Processing string nat nat
  | Completed_processing string
  | Failed_to_process string py_error
  | Batch_completed
  | Api_status_header
  | Failed_api_status py_error
  | Usage_header
  | Failed_usage_stats py_error

text \<open>
  The world: the file system as an association list from a path (relative to the working
  directory, which exists) to what is there, what has been printed, and the requests sent
  to the remote service so far.
\<close>

record world =
  files :: "(string \<times> node) list"
  stdout :: "line list"
  remote_calls :: "request list"

type_synonym 'a result = "(py_error + 'a) \<times> world"

definition print_line :: "line \<Rightarrow> world \<Rightarrow> world" where
  "print_line l w = w\<lparr>stdout := stdout w @ [l]\<rparr>"

subsection \<open>The \<open>os\<close> functions the code calls\<close>

definition os_getenv :: "(string \<times> string) list \<Rightarrow> string \<Rightarrow> string option" where
  "os_getenv env name = map_of env name"

definition os_path_exists :: "world \<Rightarrow> string \<Rightarrow> bool" where
  "os_path_exists w p = (case map_of (files w) p of None \<Rightarrow> False | Some _ \<Rightarrow> True)"

definition os_path_isfile :: "world \<Rightarrow> string \<Rightarrow> bool" where
  "os_path_isfile w p = (case map_of (files w) p of Some (File _) \<Rightarrow> True | _ \<Rightarrow> False)"

definition os_path_isdir :: "world \<Rightarrow> string \<Rightarrow> bool" where
  "os_path_isdir w p = (case map_of (files w) p of Some Dir \<Rightarrow> True | _ \<Rightarrow> False)"

text \<open>
  \<open>os.makedirs(name, exist_ok=True)\<close> for a name whose parent exists: an existing
  directory is left alone, anything else at the path raises \<open>FileExistsError\<close>.
\<close>

definition os_makedirs :: "string \<Rightarrow> world \<Rightarrow> unit result" where
  "os_makedirs name w =
     (case map_of (files w) name of
        None \<Rightarrow> (Inr (), w\<lparr>files := AList.update name Dir (files w)\<rparr>)
      | Some Dir \<Rightarrow> (Inr (), w)
      | Some (File _) \<Rightarrow> (Inl FileExistsError, w))"

definition os_path_join :: "string \<Rightarrow> string \<Rightarrow> string" where
  "os_path_join a b =
     (if b \<noteq> [] \<and> hd b = CHR ''/'' then b
      else if a = [] \<or> last a = CHR ''/'' then a @ b
      else a @ ''/'' @ b)"

subsection \<open>\<open>int(s)\<close> on a string\<close>

text \<open>
  Python strips white space, reads an optional sign, and then decimal digits in which
  single underscores may separate digits. Anything else raises \<open>ValueError\<close>,
  here \<open>None\<close>.
\<close>

definition is_space :: "char \<Rightarrow> bool" where
  "is_space c = (c \<in> set [CHR '' '', CHR 0x09, CHR 0x0A, CHR 0x0B, CHR 0x0C, CHR 0x0D,
                            CHR 0x1C, CHR 0x1D, CHR 0x1E, CHR 0x1F])"

definition strip :: "string \<Rightarrow> string" where
  "strip s = rev (dropWhile is_space (rev (dropWhile is_space s)))"

definition digit_value :: "char \<Rightarrow> nat option" where
  "digit_value c =
     (let n = (of_char c :: nat) in if 48 \<le> n \<and> n \<le> 57 then Some (n - 48) else None)"

fun parse_digits :: "nat \<Rightarrow> bool \<Rightarrow> string \<Rightarrow> nat option" where
  "parse_digits acc after_digit [] = (if after_digit then Some acc else None)"
| "parse_digits acc after_digit (c # cs) =
     (case digit_value c of
        Some d \<Rightarrow> parse_digits (10 * acc + d) True cs
      | None \<Rightarrow> if c = CHR ''_'' \<and> after_digit then parse_digits acc False cs else None)"

definition py_int :: "string \<Rightarrow> int option" where
  "py_int s =
     (case strip s of
        [] \<Rightarrow> None
      | c # cs \<Rightarrow>
          if c = CHR ''-'' then map_option (\<lambda>n. - int n) (parse_digits 0 False cs)
          else if c = CHR ''+'' then map_option int (parse_digits 0 False cs)
          else map_option int (parse_digits 0 False (c # cs)))"

section \<open>examples/config.py\<close>

record MiragicConfig =
  api_key :: "string option"
  api_base_url :: string
  api_timeout :: int
  default_blur_strength :: real
  default_scale_factor :: int
  default_threshold :: int
  input_dir :: string
  output_dir :: string
  supported_formats :: "string list"

text \<open>
  \<open>MiragicConfig.__init__\<close>: the only statement that can raise is the \<open>int(...)\<close>
  of the time-out, and it runs before any attribute after \<open>api_base_url\<close> is set.
\<close>

definition MiragicConfig_init :: "(string \<times> string) list \<Rightarrow> py_error + MiragicConfig" where
  "MiragicConfig_init env =
     (case py_int (case os_getenv env ''MIRAGIC_API_TIMEOUT'' of None \<Rightarrow> ''30'' | Some s \<Rightarrow> s) of
        None \<Rightarrow> Inl ValueError
      | Some t \<Rightarrow>
          Inr \<lparr>api_key = os_getenv env ''MIRAGIC_API_KEY'',
               api_base_url = (case os_getenv env ''MIRAGIC_API_BASE_URL'' of
                                 None \<Rightarrow> ''https://api.miragic.com/v1'' | Some u \<Rightarrow> u),
               api_timeout = t,
               default_blur_strength = 8 / 10,
               default_scale_factor = 2,
               default_threshold = 128,
               input_dir = ''input'',
               output_dir = ''output'',
               supported_formats = [''.jpg'', ''.jpeg'', ''.png'', ''.bmp'', ''.tiff'', ''.webp'']\<rparr>)"


text \<open>\<open>not self.api_key\<close>: \<open>None\<close> and the empty string are falsy.\<close>

definition falsy_key :: "string option \<Rightarrow> bool" where
  "falsy_key k = (case k of None \<Rightarrow> True | Some s \<Rightarrow> s = [])"

definition validate :: "MiragicConfig \<Rightarrow> world \<Rightarrow> bool \<times> world" where
  "validate self w =
     (if falsy_key (api_key self) then (False, print_line Api_key_not_found w)
      else if \<not> os_path_exists w (input_dir self)
        then (False, print_line (Input_directory_missing (input_dir self)) w)
      else (True, w))"

definition setup_directories :: "MiragicConfig \<Rightarrow> world \<Rightarrow> unit result" where
  "setup_directories self w =
     (case os_makedirs (input_dir self) w of
        (Inl e, w1) \<Rightarrow> (Inl e, w1)
      | (Inr _, w1) \<Rightarrow> os_makedirs (output_dir self) w1)"

definition get_sdk_config :: "MiragicConfig \<Rightarrow> (string \<times> pyval) list" where
  "get_sdk_config self =
     [(''api_key'', (case api_key self of None \<Rightarrow> PyNone | Some k \<Rightarrow> PyStr k)),
      (''use_api'', PyBool True),
      (''api_base_url'', PyStr (api_base_url self))]"

section \<open>Calling a Python function\<close>

text \<open>
  How Python binds the arguments of a call to the parameters of a \<open>def\<close>: positional
  arguments fill the parameters from the left, a keyword names its parameter, a keyword
  that names no parameter goes to \<open>**kwargs\<close> when the function has one, and the
  parameters left over take their defaults. Too many positional arguments, a parameter
  given twice, a keyword nobody takes and a parameter left without a value each raise
  \<open>TypeError\<close>. The result is the values of the parameters and the contents of
  \<open>**kwargs\<close>.
\<close>

definition bind_arguments ::
  "string list \<Rightarrow> (string \<times> pyval) list \<Rightarrow> bool \<Rightarrow> pyval list \<Rightarrow> (string \<times> pyval) list
    \<Rightarrow> py_error + ((string \<times> pyval) list \<times> (string \<times> pyval) list)" where
  "bind_arguments params defaults var_kw args kwargs =
     (let named = filter (\<lambda>kv. fst kv \<in> set params) kwargs;
          extra = filter (\<lambda>kv. fst kv \<notin> set params) kwargs;
          bound = zip params args @ named @ defaults
      in if length params < length args then Inl TypeError
         else if \<not> distinct (map fst kwargs) then Inl TypeError
         else if list_ex (\<lambda>kv. fst kv \<in> set (take (length args) params)) named then Inl TypeError
         else if extra \<noteq> [] \<and> \<not> var_kw then Inl TypeError
         else if list_ex (\<lambda>p. map_of bound p = None) params then Inl TypeError
         else Inr (map (\<lambda>p. (p, case map_of bound p of Some v \<Rightarrow> v | None \<Rightarrow> PyNone)) params,
                   extra))"

definition argument :: "(string \<times> pyval) list \<Rightarrow> string \<Rightarrow> pyval" where
  "argument bound p = (case map_of bound p of Some v \<Rightarrow> v | None \<Rightarrow> PyNone)"

section \<open>The feature clients\<close>

text \<open>
  Modelled from the spec: the classes \<open>BackgroundRemover\<close>, \<open>ImageUpscaler\<close> and
  \<open>BlurBackground\<close> (the modules \<open>background_removal\<close>, \<open>image_upscaler\<close> and
  \<open>blur_background\<close> that \<open>core.py\<close> imports are not among the sources). The
  specification gives a feature client one capability: it accepts an input image
  reference (a path or raw bytes), an output path and options, performs the remote call,
  persists the result and returns the output path. Its failure modes are invalid option
  value, input not found, unsupported format and remote request failure. An option out of
  range is rejected first (\<open>ValueError\<close>: threshold outside 0..255, blur strength outside
  0.0..1.0, scale factor outside 1..8), then a missing input (\<open>FileNotFoundError\<close>) and an
  unsupported extension (\<open>ValueError\<close>), all before the remote call. A client object is
  built from the API key and offers nothing but its one method: it is not callable.
\<close>

datatype background_remover = BackgroundRemover pyval
datatype image_upscaler = ImageUpscaler pyval
datatype blur_background_client = BlurBackground pyval

text \<open>
  What the code is run against: the remote service (the bytes it answers a request with,
  or \<open>None\<close> when the request fails) and the package's \<open>__version__\<close>.
\<close>

record externals =
  remote_service :: "request \<Rightarrow> string option"
  package_version :: string

text \<open>
  Modelled from the spec: the supported formats are the extensions the configuration
  lists; an input path with another extension is an unsupported format.
\<close>

definition has_supported_extension :: "string \<Rightarrow> bool" where
  "has_supported_extension p =
     list_ex (\<lambda>e. length e \<le> length p \<and> drop (length p - length e) p = e)
       [''.jpg'', ''.jpeg'', ''.png'', ''.bmp'', ''.tiff'', ''.webp'']"

text \<open>
  Modelled from the spec: the remote call and the persisting of its result. The request
  is recorded as sent; a failed request raises \<open>RemoteServiceError\<close> and writes
  nothing, a successful one writes the bytes to the output path, which is returned.
\<close>

definition send_request ::
  "externals \<Rightarrow> pyval \<Rightarrow> operation \<Rightarrow> pyval \<Rightarrow> string \<Rightarrow> (string \<times> pyval) list \<Rightarrow> world
    \<Rightarrow> pyval result" where
  "send_request ext key opn img out opts w =
     (let req = \<lparr>req_api_key = key, req_operation = opn, req_image = img, req_options = opts\<rparr>;
          w1 = w\<lparr>remote_calls := remote_calls w @ [req]\<rparr>
      in case remote_service ext req of
           None \<Rightarrow> (Inl RemoteServiceError, w1)
         | Some bytes \<Rightarrow> (Inr (PyStr out), w1\<lparr>files := AList.update out (File bytes) (files w1)\<rparr>))"

text \<open>
  Modelled from the spec: what the three clients share. A path that names no file is
  input not found, and raw bytes need no file. An input that is neither a string nor
  bytes, or an output path that is not a string, is outside the contract and raises
  \<open>TypeError\<close>.
\<close>

definition feature_request ::
  "externals \<Rightarrow> pyval \<Rightarrow> operation \<Rightarrow> pyval \<Rightarrow> pyval \<Rightarrow> (string \<times> pyval) list \<Rightarrow> world
    \<Rightarrow> pyval result" where
  "feature_request ext key opn input_path output_path opts w =
     (case output_path of
        PyStr out \<Rightarrow>
          (case input_path of
             PyStr p \<Rightarrow>
               if \<not> os_path_isfile w p then (Inl FileNotFoundError, w)
               else if \<not> has_supported_extension p then (Inl ValueError, w)
               else send_request ext key opn input_path out opts w
           | PyBytes b \<Rightarrow> send_request ext key opn input_path out opts w
           | _ \<Rightarrow> (Inl TypeError, w))
      | _ \<Rightarrow> (Inl TypeError, w))"

text \<open>Modelled from the spec: the ranges of the options.\<close>

definition valid_threshold :: "(string \<times> pyval) list \<Rightarrow> bool" where
  "valid_threshold opts =
     (case map_of opts ''threshold'' of
        None \<Rightarrow> True
      | Some (PyInt n) \<Rightarrow> 0 \<le> n \<and> n \<le> 255
      | Some _ \<Rightarrow> False)"

definition valid_scale_factor :: "pyval \<Rightarrow> bool" where
  "valid_scale_factor v = (case v of PyInt n \<Rightarrow> 1 \<le> n \<and> n \<le> 8 | _ \<Rightarrow> False)"

definition valid_blur_strength :: "pyval \<Rightarrow> bool" where
  "valid_blur_strength v =
     (case v of PyFloat x \<Rightarrow> 0 \<le> x \<and> x \<le> 1 | PyInt n \<Rightarrow> 0 \<le> n \<and> n \<le> 1 | _ \<Rightarrow> False)"

text \<open>
  Modelled from the spec: the one method of each client, under the name by which
  \<open>core.py\<close> calls it.
\<close>

fun BackgroundRemover_remove_background ::
  "externals \<Rightarrow> background_remover \<Rightarrow> pyval \<Rightarrow> pyval \<Rightarrow> (string \<times> pyval) list \<Rightarrow> world
    \<Rightarrow> pyval result" where
  "BackgroundRemover_remove_background ext (BackgroundRemover key) input_path output_path kwargs w =
     (if \<not> valid_threshold kwargs then (Inl ValueError, w)
      else feature_request ext key Remove_background_op input_path output_path kwargs w)"

fun ImageUpscaler_upscale ::
  "externals \<Rightarrow> image_upscaler \<Rightarrow> pyval \<Rightarrow> pyval \<Rightarrow> pyval \<Rightarrow> (string \<times> pyval) list \<Rightarrow> world
    \<Rightarrow> pyval result" where
  "ImageUpscaler_upscale ext (ImageUpscaler key) input_path output_path scale_factor kwargs w =
     (if \<not> valid_scale_factor scale_factor then (Inl ValueError, w)
      else feature_request ext key Upscale_op input_path output_path
             ((''scale_factor'', scale_factor) # kwargs) w)"

fun BlurBackground_apply_blur ::
  "externals \<Rightarrow> blur_background_client \<Rightarrow> pyval \<Rightarrow> pyval \<Rightarrow> pyval \<Rightarrow> (string \<times> pyval) list \<Rightarrow> world
    \<Rightarrow> pyval result" where
  "BlurBackground_apply_blur ext (BlurBackground key) input_path output_path blur_strength kwargs w =
     (if \<not> valid_blur_strength blur_strength then (Inl ValueError, w)
      else feature_request ext key Blur_op input_path output_path
             ((''blur_strength'', blur_strength) # kwargs) w)"

section \<open>miragic_sdk/core.py\<close>

text \<open>
  An instance of \<open>MiragicSDK\<close> is what \<open>__init__\<close> stores in it: four instance
  attributes. The field \<open>sdk_api_key\<close> is the attribute \<open>api_key\<close>.
\<close>

record MiragicSDK =
  sdk_api_key :: pyval
  background_remover :: background_remover
  image_upscaler :: image_upscaler
  blur_background :: blur_background_client

definition MiragicSDK_init :: "pyval \<Rightarrow> MiragicSDK" where
  "MiragicSDK_init key =
     \<lparr>sdk_api_key = key,
      background_remover = BackgroundRemover key,
      image_upscaler = ImageUpscaler key,
      blur_background = BlurBackground key\<rparr>"

text \<open>
  The call \<open>MiragicSDK(*args, **kwargs)\<close>: the arguments are bound to the one parameter
  of \<open>__init__(self, api_key=None)\<close>, which has no \<open>**kwargs\<close>, and then the body runs.
\<close>

definition MiragicSDK_call :: "pyval list \<Rightarrow> (string \<times> pyval) list \<Rightarrow> py_error + MiragicSDK" where
  "MiragicSDK_call args kwargs =
     (case bind_arguments [''api_key''] [(''api_key'', PyNone)] False args kwargs of
        Inl e \<Rightarrow> Inl e
      | Inr (bound, extra) \<Rightarrow> Inr (MiragicSDK_init (argument bound ''api_key'')))"

subsection \<open>The methods\<close>

definition MiragicSDK_remove_background ::
  "externals \<Rightarrow> MiragicSDK \<Rightarrow> pyval \<Rightarrow> pyval \<Rightarrow> (string \<times> pyval) list \<Rightarrow> world \<Rightarrow> pyval result" where
  "MiragicSDK_remove_background ext self input_path output_path kwargs w =
     BackgroundRemover_remove_background ext (background_remover self) input_path output_path kwargs w"

definition MiragicSDK_upscale_image ::
  "externals \<Rightarrow> MiragicSDK \<Rightarrow> pyval \<Rightarrow> pyval \<Rightarrow> pyval \<Rightarrow> (string \<times> pyval) list \<Rightarrow> world
    \<Rightarrow> pyval result" where
  "MiragicSDK_upscale_image ext self input_path output_path scale_factor kwargs w =
     ImageUpscaler_upscale ext (image_upscaler self) input_path output_path scale_factor kwargs w"

definition MiragicSDK_blur_background ::
  "externals \<Rightarrow> MiragicSDK \<Rightarrow> pyval \<Rightarrow> pyval \<Rightarrow> pyval \<Rightarrow> (string \<times> pyval) list \<Rightarrow> world
    \<Rightarrow> pyval result" where
  "MiragicSDK_blur_background ext self input_path output_path blur_strength kwargs w =
     BlurBackground_apply_blur ext (blur_background self) input_path output_path blur_strength kwargs w"

definition MiragicSDK_get_version :: "externals \<Rightarrow> MiragicSDK \<Rightarrow> world \<Rightarrow> pyval result" where
  "MiragicSDK_get_version ext self w = (Inr (PyStr (package_version ext)), w)"

subsection \<open>Attribute access on an instance\<close>

text \<open>
  \<open>sdk.name\<close> looks in the instance's own dictionary first and in the class after it:
  the functions of a class body are not data descriptors, so an instance attribute of the
  same name hides them. A name in neither raises \<open>AttributeError\<close>. The class dictionary
  holds the four operations of the class body; \<open>__init__\<close> and what every object
  inherits are left out.
\<close>

datatype sdk_method = Remove_background | Upscale_image | Blur_background | Get_version

datatype attribute =
    Value pyval
  | Remover background_remover
  | Upscaler image_upscaler
  | Blurrer blur_background_client
  | Bound_method sdk_method

definition instance_dict :: "MiragicSDK \<Rightarrow> (string \<times> attribute) list" where
  "instance_dict self =
     [(''api_key'', Value (sdk_api_key self)),
      (''background_remover'', Remover (background_remover self)),
      (''image_upscaler'', Upscaler (image_upscaler self)),
      (''blur_background'', Blurrer (blur_background self))]"

definition class_dict :: "(string \<times> sdk_method) list" where
  "class_dict =
     [(''remove_background'', Remove_background),
      (''upscale_image'', Upscale_image),
      (''blur_background'', Blur_background),
      (''get_version'', Get_version)]"

definition getattr :: "MiragicSDK \<Rightarrow> string \<Rightarrow> py_error + attribute" where
  "getattr self name =
     (case map_of (instance_dict self) name of
        Some a \<Rightarrow> Inr a
      | None \<Rightarrow>
          (case map_of class_dict name of
             Some m \<Rightarrow> Inr (Bound_method m)
           | None \<Rightarrow> Inl AttributeError))"

text \<open>Calling a bound method: the arguments are bound to its signature, then its body runs.\<close>

definition call_method ::
  "externals \<Rightarrow> MiragicSDK \<Rightarrow> sdk_method \<Rightarrow> pyval list \<Rightarrow> (string \<times> pyval) list \<Rightarrow> world
    \<Rightarrow> pyval result" where
  "call_method ext self m args kwargs w =
     (case m of
        Remove_background \<Rightarrow>
          (case bind_arguments [''input_path'', ''output_path''] [] True args kwargs of
             Inl e \<Rightarrow> (Inl e, w)
           | Inr (b, extra) \<Rightarrow>
               MiragicSDK_remove_background ext self
                 (argument b ''input_path'') (argument b ''output_path'') extra w)
      | Upscale_image \<Rightarrow>
          (case bind_arguments [''input_path'', ''output_path'', ''scale_factor'']
                  [(''scale_factor'', PyInt 2)] True args kwargs of
             Inl e \<Rightarrow> (Inl e, w)
           | Inr (b, extra) \<Rightarrow>
               MiragicSDK_upscale_image ext self
                 (argument b ''input_path'') (argument b ''output_path'')
                 (argument b ''scale_factor'') extra w)
      | Blur_background \<Rightarrow>
          (case bind_arguments [''input_path'', ''output_path'', ''blur_strength'']
                  [(''blur_strength'', PyFloat (8 / 10))] True args kwargs of
             Inl e \<Rightarrow> (Inl e, w)
           | Inr (b, extra) \<Rightarrow>
               MiragicSDK_blur_background ext self
                 (argument b ''input_path'') (argument b ''output_path'')
                 (argument b ''blur_strength'') extra w)
      | Get_version \<Rightarrow>
          (case bind_arguments [] [] False args kwargs of
             Inl e \<Rightarrow> (Inl e, w)
           | Inr (b, extra) \<Rightarrow> MiragicSDK_get_version ext self w))"

text \<open>
  The expression \<open>sdk.name(*args, **kwargs)\<close>: the attribute is looked up and what is
  found is called. A string, \<open>None\<close> and a feature client are not callable.
\<close>

definition invoke ::
  "externals \<Rightarrow> MiragicSDK \<Rightarrow> string \<Rightarrow> pyval list \<Rightarrow> (string \<times> pyval) list \<Rightarrow> world
    \<Rightarrow> pyval result" where
  "invoke ext sdk name args kwargs w =
     (case getattr sdk name of
        Inl e \<Rightarrow> (Inl e, w)
      | Inr (Bound_method m) \<Rightarrow> call_method ext sdk m args kwargs w
      | Inr (Value v) \<Rightarrow> (Inl TypeError, w)
      | Inr (Remover c) \<Rightarrow> (Inl TypeError, w)
      | Inr (Upscaler c) \<Rightarrow> (Inl TypeError, w)
      | Inr (Blurrer c) \<Rightarrow> (Inl TypeError, w))"

section \<open>examples/api\_usage\_example.py: the batch example\<close>

fun string_of_nat :: "nat \<Rightarrow> string" where
  "string_of_nat n =
     (if n < 10 then [char_of (48 + n)]
      else string_of_nat (n div 10) @ [char_of (48 + n mod 10)])"

declare string_of_nat.simps [simp del]

text \<open>The body of the \<open>try\<close> for one image; \<open>i\<close> is the index \<open>enumerate\<close> gives.\<close>

definition process_image :: "externals \<Rightarrow> MiragicSDK \<Rightarrow> nat \<Rightarrow> string \<Rightarrow> world \<Rightarrow> pyval result" where
  "process_image ext sdk i input_image w =
     (case invoke ext sdk ''remove_background'' []
             [(''input_path'', PyStr input_image),
              (''output_path'', PyStr (os_path_join ''batch_output''
                  (''bg_removed_'' @ string_of_nat (i + 1) @ ''.png'')))] w of
        (Inl e, w1) \<Rightarrow> (Inl e, w1)
      | (Inr r1, w1) \<Rightarrow>
          (case invoke ext sdk ''blur_background'' []
                  [(''input_path'', PyStr input_image),
                   (''output_path'', PyStr (os_path_join ''batch_output''
                       (''blurred_'' @ string_of_nat (i + 1) @ ''.jpg''))),
                   (''blur_strength'', PyFloat (6 / 10))] w1 of
             (Inl e, w2) \<Rightarrow> (Inl e, w2)
           | (Inr r2, w2) \<Rightarrow>
               invoke ext sdk ''upscale_image'' []
                 [(''input_path'', PyStr input_image),
                  (''output_path'', PyStr (os_path_join ''batch_output''
                      (''upscaled_'' @ string_of_nat (i + 1) @ ''.jpg''))),
                  (''scale_factor'', PyInt 2)] w2))"

fun batch_loop ::
  "externals \<Rightarrow> MiragicSDK \<Rightarrow> nat \<Rightarrow> nat \<Rightarrow> string list \<Rightarrow> world \<Rightarrow> unit result" where
  "batch_loop ext sdk i n [] w = (Inr (), w)"
| "batch_loop ext sdk i n (input_image # rest) w =
     (if \<not> os_path_exists w input_image
      then batch_loop ext sdk (Suc i) n rest (print_line (Skipping input_image) w)
      else
        (case process_image ext sdk i input_image
                (print_line (Processing input_image (i + 1) n) w) of
           (Inr r, w1) \<Rightarrow>
             batch_loop ext sdk (Suc i) n rest (print_line (Completed_processing input_image) w1)
         | (Inl e, w1) \<Rightarrow>
             if is_Exception e
             then batch_loop ext sdk (Suc i) n rest (print_line (Failed_to_process input_image e) w1)
             else (Inl e, w1)))"

definition input_images :: "string list" where
  "input_images = [''image1.jpg'', ''image2.jpg'', ''image3.jpg'']"

definition batch_processing_example :: "externals \<Rightarrow> world \<Rightarrow> unit result" where
  "batch_processing_example ext w =
     (case MiragicSDK_call [] [(''api_key'', PyStr ''your_api_key_here''), (''use_api'', PyBool True)] of
        Inl e \<Rightarrow> (Inl e, w)
      | Inr sdk \<Rightarrow>
          (case os_makedirs ''batch_output'' w of
             (Inl e, w1) \<Rightarrow> (Inl e, w1)
           | (Inr u, w1) \<Rightarrow>
               (case batch_loop ext sdk 0 (length input_images) input_images
                       (print_line Processing_batch w1) of
                  (Inl e, w2) \<Rightarrow> (Inl e, w2)
                | (Inr u, w2) \<Rightarrow> (Inr (), print_line Batch_completed w2))))"

section \<open>examples/cli\_api\_example.py\<close>

definition setup_sdk :: "MiragicConfig \<Rightarrow> world \<Rightarrow> MiragicSDK result" where
  "setup_sdk config w =
     (case validate config w of
        (ok, w1) \<Rightarrow>
          if \<not> ok then (Inl (SystemExit 1), w1)
          else
            (case setup_directories config w1 of
               (Inl e, w2) \<Rightarrow> (Inl e, w2)
             | (Inr u, w2) \<Rightarrow>
                 (case MiragicSDK_call [] (get_sdk_config config) of
                    Inl e \<Rightarrow> (Inl e, w2)
                  | Inr sdk \<Rightarrow> (Inr sdk, w2))))"

text \<open>
  The \<open>try\<close> statement of \<open>status_command\<close>, entered with the SDK that \<open>setup_sdk\<close>
  returned. Were the call to return a value, \<open>status.items()\<close> would be looked up on it
  after the header is printed; none of the values modelled here is a dictionary, so that
  raises \<open>AttributeError\<close>. \<open>except Exception\<close> prints the failure and calls
  \<open>sys.exit(1)\<close>.
\<close>

definition status_try :: "externals \<Rightarrow> MiragicSDK \<Rightarrow> world \<Rightarrow> unit result" where
  "status_try ext sdk w =
     (case (case invoke ext sdk ''get_api_status'' [] [] w of
              (Inl e, w1) \<Rightarrow> (Inl e, w1)
            | (Inr status, w1) \<Rightarrow>
                ((Inl AttributeError :: py_error + unit), print_line Api_status_header w1)) of
        (Inl e, w2) \<Rightarrow>
          if is_Exception e then (Inl (SystemExit 1), print_line (Failed_api_status e) w2)
          else (Inl e, w2)
      | (Inr u, w2) \<Rightarrow> (Inr (), w2))"

definition status_command :: "externals \<Rightarrow> MiragicConfig \<Rightarrow> world \<Rightarrow> unit result" where
  "status_command ext config w =
     (case setup_sdk config w of
        (Inl e, w1) \<Rightarrow> (Inl e, w1)
      | (Inr sdk, w1) \<Rightarrow> status_try ext sdk w1)"

definition usage_try :: "externals \<Rightarrow> MiragicSDK \<Rightarrow> world \<Rightarrow> unit result" where
  "usage_try ext sdk w =
     (case (case invoke ext sdk ''get_usage_stats'' [] [] w of
              (Inl e, w1) \<Rightarrow> (Inl e, w1)
            | (Inr usage, w1) \<Rightarrow>
                ((Inl AttributeError :: py_error + unit), print_line Usage_header w1)) of
        (Inl e, w2) \<Rightarrow>
          if is_Exception e then (Inl (SystemExit 1), print_line (Failed_usage_stats e) w2)
          else (Inl e, w2)
      | (Inr u, w2) \<Rightarrow> (Inr (), w2))"

definition usage_command :: "externals \<Rightarrow> MiragicConfig \<Rightarrow> world \<Rightarrow> unit result" where
  "usage_command ext config w =
     (case setup_sdk config w of
        (Inl e, w1) \<Rightarrow> (Inl e, w1)
      | (Inr sdk, w1) \<Rightarrow> usage_try ext sdk w1)"

section \<open>Properties of the configuration\<close>

lemma py_int_examples:
  "py_int ''30'' = Some 30"
  "py_int '' -1_000 '' = Some (- 1000)"
  "py_int ''007'' = Some 7"
  "py_int ''thirty'' = None"
  "py_int ''3.5'' = None"
  "py_int ''1__0'' = None"
  "py_int [] = None"
  by (simp_all add: py_int_def strip_def is_space_def digit_value_def)

lemma fst_makedirs:
  "fst (os_makedirs p w) = (if os_path_isfile w p then Inl FileExistsError else Inr ())"
  by (auto simp: os_makedirs_def os_path_isfile_def split: option.splits node.splits)

lemma isfile_makedirs:
  "os_path_isfile (snd (os_makedirs p w)) q = os_path_isfile w q"
  by (auto simp: os_makedirs_def os_path_isfile_def update_conv' split: option.splits node.splits)

lemma isdir_makedirs:
  "os_path_isdir (snd (os_makedirs p w)) q =
     (os_path_isdir w q \<or> (q = p \<and> \<not> os_path_isfile w p))"
  by (auto simp: os_makedirs_def os_path_isfile_def os_path_isdir_def update_conv'
           split: option.splits node.splits)

lemma map_of_makedirs_other:
  "q \<noteq> p \<Longrightarrow> map_of (files (snd (os_makedirs p w))) q = map_of (files w) q"
  by (auto simp: os_makedirs_def update_conv' split: option.splits node.splits)

lemma output_makedirs:
  "stdout (snd (os_makedirs p w)) = stdout w"
  "remote_calls (snd (os_makedirs p w)) = remote_calls w"
  by (auto simp: os_makedirs_def split: option.splits node.splits)

lemma makedirs_isdir: "os_path_isdir w p \<Longrightarrow> os_makedirs p w = (Inr (), w)"
  by (auto simp: os_makedirs_def os_path_isdir_def split: option.splits node.splits)

lemma makedirs_isfile: "os_path_isfile w p \<Longrightarrow> os_makedirs p w = (Inl FileExistsError, w)"
  by (auto simp: os_makedirs_def os_path_isfile_def split: option.splits node.splits)

lemma setup_directories_eq:
  "setup_directories cfg w =
     (if os_path_isfile w (input_dir cfg) then (Inl FileExistsError, w)
      else os_makedirs (output_dir cfg) (snd (os_makedirs (input_dir cfg) w)))"
  by (cases "os_makedirs (input_dir cfg) w")
     (auto simp: setup_directories_def os_makedirs_def os_path_isfile_def
           split: option.splits node.splits sum.splits)

lemma setup_directories_twice:
  "setup_directories cfg (snd (setup_directories cfg w)) = setup_directories cfg w"
proof (cases "os_path_isfile w (input_dir cfg)")
  case True
  then show ?thesis by (simp add: setup_directories_eq)
next
  case False
  let ?w1 = "snd (os_makedirs (input_dir cfg) w)"
  let ?w2 = "snd (os_makedirs (output_dir cfg) ?w1)"
  have d1: "os_path_isdir ?w1 (input_dir cfg)"
    using False by (simp add: isdir_makedirs)
  show ?thesis
  proof (cases "os_path_isfile w (output_dir cfg)")
    case True
    then have e: "setup_directories cfg w = (Inl FileExistsError, ?w1)"
      using False by (simp add: setup_directories_eq makedirs_isfile isfile_makedirs)
    show ?thesis
      using False True d1
      by (simp add: e)
         (simp add: setup_directories_eq makedirs_isdir makedirs_isfile isfile_makedirs)
  next
    case f2: False
    have d2: "os_path_isdir ?w2 (output_dir cfg)" "os_path_isdir ?w2 (input_dir cfg)"
      using f2 d1 by (simp_all add: isdir_makedirs isfile_makedirs)
    have e: "setup_directories cfg w = (Inr (), ?w2)"
      using False f2 by (simp add: setup_directories_eq prod_eq_iff fst_makedirs isfile_makedirs)
    show ?thesis
      using False f2 d2
      by (simp add: e) (simp add: setup_directories_eq makedirs_isdir isfile_makedirs)
  qed
qed

lemma setup_directories_succeeds:
  assumes "\<not> os_path_isfile w (input_dir cfg)" and "\<not> os_path_isfile w (output_dir cfg)"
  shows "fst (setup_directories cfg w) = Inr ()"
    and "os_path_isdir (snd (setup_directories cfg w)) (input_dir cfg)"
    and "os_path_isdir (snd (setup_directories cfg w)) (output_dir cfg)"
    and "stdout (snd (setup_directories cfg w)) = stdout w"
    and "remote_calls (snd (setup_directories cfg w)) = remote_calls w"
  using assms
  by (simp_all add: setup_directories_eq fst_makedirs isdir_makedirs isfile_makedirs
                    output_makedirs)

lemma setup_directories_keeps_others:
  assumes "p \<noteq> input_dir cfg" and "p \<noteq> output_dir cfg"
  shows "map_of (files (snd (setup_directories cfg w))) p = map_of (files w) p"
  using assms by (simp add: setup_directories_eq map_of_makedirs_other)

lemma setup_directories_existing:
  assumes "os_path_isdir w (input_dir cfg)" and "os_path_isdir w (output_dir cfg)"
  shows "setup_directories cfg w = (Inr (), w)"
proof -
  have "\<not> os_path_isfile w (input_dir cfg)"
    using assms(1)
    by (auto simp: os_path_isdir_def os_path_isfile_def split: option.splits node.splits)
  then show ?thesis
    using assms by (simp add: setup_directories_eq makedirs_isdir)
qed




text \<open>
  C5. \<open>validate\<close> never raises and returns \<open>False\<close> exactly when the API key is
  \<open>None\<close> or empty or nothing exists at the path of the input directory
  (\<open>os.path.exists\<close>); otherwise it returns \<open>True\<close>. It touches neither the files nor
  the remote service.
\<close>

theorem validate_false_iff:
  "(fst (validate cfg w) = False) =
     (api_key cfg = None \<or> api_key cfg = Some [] \<or> \<not> os_path_exists w (input_dir cfg))
   \<and> (fst (validate cfg w) = True) =
     (api_key cfg \<noteq> None \<and> api_key cfg \<noteq> Some [] \<and> os_path_exists w (input_dir cfg))
   \<and> files (snd (validate cfg w)) = files w
   \<and> remote_calls (snd (validate cfg w)) = remote_calls w"
  by (auto simp: validate_def falsy_key_def print_line_def split: option.splits)

theorem validate_false_iff_witness:
  "fst (validate (projr (MiragicConfig_init [(''MIRAGIC_API_KEY'', ''secret'')]))
          \<lparr>files = [(''input'', Dir)], stdout = [], remote_calls = []\<rparr>) = True
   \<and> fst (validate (projr (MiragicConfig_init [(''MIRAGIC_API_KEY'', ''secret'')]))
          \<lparr>files = [], stdout = [], remote_calls = []\<rparr>) = False
   \<and> fst (validate (projr (MiragicConfig_init [(''MIRAGIC_API_KEY'', [])]))
          \<lparr>files = [(''input'', Dir)], stdout = [], remote_calls = []\<rparr>) = False"
  using validate_false_iff [of "projr (MiragicConfig_init [(''MIRAGIC_API_KEY'', ''secret'')])"
          "\<lparr>files = [(''input'', Dir)], stdout = [], remote_calls = []\<rparr>"]
        validate_false_iff [of "projr (MiragicConfig_init [(''MIRAGIC_API_KEY'', ''secret'')])"
          "\<lparr>files = [], stdout = [], remote_calls = []\<rparr>"]
        validate_false_iff [of "projr (MiragicConfig_init [(''MIRAGIC_API_KEY'', [])])"
          "\<lparr>files = [(''input'', Dir)], stdout = [], remote_calls = []\<rparr>"]
  by (simp add: MiragicConfig_init_def os_getenv_def py_int_examples os_path_exists_def)

text \<open>
  C6, as the code has it. Running \<open>setup_directories\<close> a second time changes nothing and
  ends as the first run did, in every state of the file system. When neither path is
  occupied by a regular file it succeeds, both paths are directories afterwards, every
  other path is as it was, and nothing changes at all when both directories were there.
\<close>

theorem setup_directories_idempotent:
  "setup_directories cfg (snd (setup_directories cfg w)) = setup_directories cfg w
   \<and> (\<not> os_path_isfile w (input_dir cfg) \<and> \<not> os_path_isfile w (output_dir cfg) \<longrightarrow>
        fst (setup_directories cfg w) = Inr ()
        \<and> os_path_isdir (snd (setup_directories cfg w)) (input_dir cfg)
        \<and> os_path_isdir (snd (setup_directories cfg w)) (output_dir cfg)
        \<and> (\<forall>p. p \<noteq> input_dir cfg \<and> p \<noteq> output_dir cfg \<longrightarrow>
              map_of (files (snd (setup_directories cfg w))) p = map_of (files w) p))
   \<and> (os_path_isdir w (input_dir cfg) \<and> os_path_isdir w (output_dir cfg) \<longrightarrow>
        setup_directories cfg w = (Inr (), w))"
  using setup_directories_twice [of cfg w] setup_directories_succeeds(1,2,3) [of w cfg]
        setup_directories_keeps_others [of _ cfg w] setup_directories_existing [of w cfg]
  by blast

theorem setup_directories_idempotent_witness:
  "\<not> os_path_isfile \<lparr>files = [(''output'', Dir)], stdout = [], remote_calls = []\<rparr>
        (input_dir (projr (MiragicConfig_init [])))
   \<and> \<not> os_path_isfile \<lparr>files = [(''output'', Dir)], stdout = [], remote_calls = []\<rparr>
        (output_dir (projr (MiragicConfig_init [])))
   \<and> setup_directories (projr (MiragicConfig_init []))
        \<lparr>files = [(''output'', Dir)], stdout = [], remote_calls = []\<rparr>
       = (Inr (), \<lparr>files = [(''output'', Dir), (''input'', Dir)], stdout = [], remote_calls = []\<rparr>)
   \<and> setup_directories (projr (MiragicConfig_init []))
        \<lparr>files = [(''output'', Dir), (''input'', Dir)], stdout = [], remote_calls = []\<rparr>
       = (Inr (), \<lparr>files = [(''output'', Dir), (''input'', Dir)], stdout = [], remote_calls = []\<rparr>)"
  using setup_directories_idempotent [of "projr (MiragicConfig_init [])"
          "\<lparr>files = [(''output'', Dir)], stdout = [], remote_calls = []\<rparr>"]
  by (simp add: MiragicConfig_init_def os_getenv_def py_int_examples os_path_isfile_def
                os_path_isdir_def setup_directories_def os_makedirs_def)

text \<open>
  C6, as the claim states it, fails for a file system in which a regular file is named
  \<open>input\<close>: \<open>os.makedirs\<close> raises \<open>FileExistsError\<close>, and the output directory, which
  is absent, is not created.
\<close>

theorem setup_directories_regular_file_counterexample:
  "setup_directories (projr (MiragicConfig_init []))
       \<lparr>files = [(''input'', File [])], stdout = [], remote_calls = []\<rparr>
     = (Inl FileExistsError, \<lparr>files = [(''input'', File [])], stdout = [], remote_calls = []\<rparr>)"
  by (simp add: MiragicConfig_init_def os_getenv_def py_int_examples
                setup_directories_def os_makedirs_def)



section \<open>Properties of the SDK\<close>

lemma MiragicSDK_call_api_key_only:
  "MiragicSDK_call [] [(''api_key'', key)] = Inr (MiragicSDK_init key)"
  "MiragicSDK_call [key] [] = Inr (MiragicSDK_init key)"
  "MiragicSDK_call [] [] = Inr (MiragicSDK_init PyNone)"
  by (simp_all add: MiragicSDK_call_def bind_arguments_def argument_def)

lemma MiragicSDK_call_sdk_config: "MiragicSDK_call [] (get_sdk_config cfg) = Inl TypeError"
  by (simp add: MiragicSDK_call_def bind_arguments_def get_sdk_config_def)

lemma MiragicSDK_call_unexpected_keyword:
  assumes "(k, v) \<in> set kwargs" and "k \<noteq> ''api_key''"
  shows "MiragicSDK_call args kwargs = Inl TypeError"
proof -
  have "(k, v) \<in> set (filter (\<lambda>kv. fst kv \<notin> set [''api_key'']) kwargs)"
    using assms by simp
  then have "filter (\<lambda>kv. fst kv \<notin> set [''api_key'']) kwargs \<noteq> []"
    by (metis empty_iff empty_set)
  then show ?thesis
    by (simp add: MiragicSDK_call_def bind_arguments_def Let_def)
qed

text \<open>
  C1. The constructor takes \<open>api_key\<close> and nothing else. The call every example makes,
  \<open>MiragicSDK(api_key=..., use_api=True, api_base_url=...)\<close>, raises \<open>TypeError\<close>
  when the arguments are bound, before the body of \<open>__init__\<close> runs: no instance is built.
\<close>

theorem MiragicSDK_call_api_keywords_TypeError:
  "MiragicSDK_call []
     [(''api_key'', PyStr ''your_api_key_here''), (''use_api'', PyBool True),
      (''api_base_url'', PyStr ''https://api.miragic.com/v1'')] = Inl TypeError"
  by (simp add: MiragicSDK_call_def bind_arguments_def)

text \<open>
  C3. On every instance the name \<open>blur_background\<close> resolves to the \<open>BlurBackground\<close>
  object that \<open>__init__\<close> stored, and not to the method of that name, which the class
  does define.
\<close>

theorem blur_background_attribute_is_the_client:
  "getattr (MiragicSDK_init key) ''blur_background'' = Inr (Blurrer (BlurBackground key))
   \<and> getattr sdk ''blur_background'' = Inr (Blurrer (blur_background sdk))
   \<and> getattr sdk ''blur_background'' \<noteq> Inr (Bound_method Blur_background)
   \<and> map_of class_dict ''blur_background'' = Some Blur_background"
  by (simp add: getattr_def instance_dict_def class_dict_def MiragicSDK_init_def)

lemma other_operations_are_methods:
  "getattr sdk ''remove_background'' = Inr (Bound_method Remove_background)"
  "getattr sdk ''upscale_image'' = Inr (Bound_method Upscale_image)"
  "getattr sdk ''get_version'' = Inr (Bound_method Get_version)"
  by (simp_all add: getattr_def instance_dict_def class_dict_def)

text \<open>
  C2. The call \<open>sdk.blur_background(...)\<close> never runs the method: it calls the
  \<open>BlurBackground\<close> object found under that name, which is not callable, and raises
  \<open>TypeError\<close> whatever the arguments are. Nothing is sent and nothing is written.
\<close>

theorem blur_background_call_TypeError:
  "invoke ext sdk ''blur_background'' args kwargs w = (Inl TypeError, w)"
  by (simp add: invoke_def getattr_def instance_dict_def)

text \<open>
  The method body itself, were it reached (as \<open>MiragicSDK.blur_background(sdk, ...)\<close>),
  hands the call to the client, which rejects a strength outside 0.0..1.0.
\<close>

lemma blur_background_method_body:
  "call_method ext sdk Blur_background [i, out, strength] [] w =
     BlurBackground_apply_blur ext (blur_background sdk) i out strength [] w"
  "x < 0 \<or> 1 < x \<Longrightarrow>
     call_method ext sdk Blur_background [i, out, PyFloat x] [] w = (Inl ValueError, w)"
  by (cases "blur_background sdk";
      auto simp: call_method_def bind_arguments_def argument_def MiragicSDK_blur_background_def
                 valid_blur_strength_def)+


lemma upscale_image_call:
  "invoke ext sdk ''upscale_image'' [i, out, sf] [] w =
     MiragicSDK_upscale_image ext sdk i out sf [] w"
  "invoke ext sdk ''upscale_image'' []
       [(''input_path'', i), (''output_path'', out), (''scale_factor'', sf),
        (''method'', m), (''sharpen'', s)] w =
     MiragicSDK_upscale_image ext sdk i out sf [(''method'', m), (''sharpen'', s)] w"
  by (simp_all add: invoke_def getattr_def instance_dict_def class_dict_def call_method_def
                    bind_arguments_def argument_def)



section \<open>Properties of the examples\<close>

text \<open>
  C8. The batch example does not reach its loop: its first statement builds the SDK with
  the keyword \<open>use_api\<close>, which the constructor does not take, and the \<open>TypeError\<close>
  leaves the function. Nothing is printed, skipped or processed, whatever files exist.
\<close>

theorem batch_processing_example_TypeError:
  "batch_processing_example ext w = (Inl TypeError, w)"
  by (simp add: batch_processing_example_def MiragicSDK_call_def bind_arguments_def)

text \<open>
  The loop itself, run with an SDK built from the API key alone and a service that always
  answers, on a file system that has the first and the third image: the second image is
  skipped and the loop goes on to the third, but each image that is present is reported
  as failed, since \<open>sdk.blur_background(...)\<close> raises \<open>TypeError\<close>.
\<close>

lemma batch_loop_with_an_sdk:
  "batch_loop \<lparr>remote_service = (\<lambda>r. Some ''png''), package_version = ''1.0.0''\<rparr>
       (MiragicSDK_init (PyStr ''your_api_key_here'')) 0 3 input_images
       \<lparr>files = [(''image1.jpg'', File ''a''), (''image3.jpg'', File ''c'')],
        stdout = [], remote_calls = []\<rparr>
   = (Inr (),
      \<lparr>files = [(''image1.jpg'', File ''a''), (''image3.jpg'', File ''c''),
                (''batch_output/bg_removed_1.png'', File ''png''),
                (''batch_output/bg_removed_3.png'', File ''png'')],
       stdout = [Processing ''image1.jpg'' 1 3, Failed_to_process ''image1.jpg'' TypeError,
                 Skipping ''image2.jpg'',
                 Processing ''image3.jpg'' 3 3, Failed_to_process ''image3.jpg'' TypeError],
       remote_calls =
         [\<lparr>req_api_key = PyStr ''your_api_key_here'', req_operation = Remove_background_op,
           req_image = PyStr ''image1.jpg'', req_options = []\<rparr>,
          \<lparr>req_api_key = PyStr ''your_api_key_here'', req_operation = Remove_background_op,
           req_image = PyStr ''image3.jpg'', req_options = []\<rparr>]\<rparr>)"
  by code_simp

text \<open>
  C9. On every instance, \<open>sdk.get_api_status()\<close> and \<open>sdk.get_usage_stats()\<close> raise
  \<open>AttributeError\<close>: neither name is an attribute of the instance or of the class. The
  handlers catch it, print the failure and leave with \<open>sys.exit(1)\<close>.
\<close>

theorem status_and_usage_AttributeError:
  "invoke ext sdk ''get_api_status'' [] [] w = (Inl AttributeError, w)
   \<and> invoke ext sdk ''get_usage_stats'' [] [] w = (Inl AttributeError, w)
   \<and> status_try ext sdk w = (Inl (SystemExit 1), print_line (Failed_api_status AttributeError) w)
   \<and> usage_try ext sdk w = (Inl (SystemExit 1), print_line (Failed_usage_stats AttributeError) w)"
  by (simp add: status_try_def usage_try_def invoke_def getattr_def instance_dict_def
                class_dict_def)

text \<open>
  As the commands stand, \<open>setup_sdk\<close> never returns an SDK: it leaves with
  \<open>sys.exit(1)\<close> when validation fails, with \<open>FileExistsError\<close> when a directory
  cannot be made, and otherwise with the \<open>TypeError\<close> of the constructor call. So the
  commands end before their \<open>try\<close> statement.
\<close>

lemma setup_directories_error:
  "setup_directories cfg w = (Inl e, w') \<Longrightarrow> e = FileExistsError"
  by (auto simp: setup_directories_def os_makedirs_def
           split: option.splits node.splits prod.splits sum.splits)

lemma setup_sdk_never_returns:
  "fst (setup_sdk cfg w) \<in> {Inl (SystemExit 1), Inl FileExistsError, Inl TypeError}"
proof (cases "validate cfg w")
  case (Pair ok w1)
  show ?thesis
  proof (cases "setup_directories cfg w1")
    case p2: (Pair r w2)
    show ?thesis
      using Pair p2 setup_directories_error [of cfg w1 _ w2]
      by (cases r) (auto simp: setup_sdk_def MiragicSDK_call_sdk_config)
  qed
qed

lemma status_command_ends_in_setup:
  "status_command ext cfg w = (case setup_sdk cfg w of (r, w1) \<Rightarrow> (Inl (projl r), w1))"
  "usage_command ext cfg w = (case setup_sdk cfg w of (r, w1) \<Rightarrow> (Inl (projl r), w1))"
  using setup_sdk_never_returns [of cfg w]
  by (cases "setup_sdk cfg w"; auto simp: status_command_def usage_command_def)+

end
